theory Spec2Isabelle
  imports Complex_Main "HOL-Library.Sublist" "HOL-Library.Code_Target_Numeral"
begin

section \<open>Python string primitives used by fa5usbdata.py\<close>

text \<open>
  Strings are lists of characters; every character stands for a code point below 256.
  The instrument protocol is plain ASCII, so this covers every line the device sends.
\<close>

text \<open>\<^verbatim>\<open>str.isspace\<close> on the code points below 256.\<close>

definition py_isspace :: "char \<Rightarrow> bool" where
  "py_isspace c = (c \<in> set [CHR 0x09, CHR 0x0A, CHR 0x0B, CHR 0x0C, CHR 0x0D,
                              CHR 0x1C, CHR 0x1D, CHR 0x1E, CHR 0x1F, CHR 0x20,
                              CHR 0x85, CHR 0xA0])"

text \<open>\<^verbatim>\<open>s.strip()\<close>\<close>

definition py_strip :: "string \<Rightarrow> string" where
  "py_strip s = rev (dropWhile py_isspace (rev (dropWhile py_isspace s)))"

text \<open>
  Slice bounds: a negative bound counts from the end, and every bound is clamped to the
  length of the sequence, so a slice never raises.
\<close>

definition slice_index :: "nat \<Rightarrow> int \<Rightarrow> nat" where
  "slice_index n i = (if i < 0 then nat (max 0 (int n + i)) else min n (nat i))"

text \<open>\<^verbatim>\<open>xs[i:j]\<close>, \<^verbatim>\<open>xs[i:]\<close> and \<^verbatim>\<open>xs[:j]\<close>\<close>

definition py_slice :: "int \<Rightarrow> int \<Rightarrow> 'a list \<Rightarrow> 'a list" where
  "py_slice i j xs =
     (let n = length xs; a = slice_index n i; b = slice_index n j
      in take (b - a) (drop a xs))"

definition py_slice_from :: "int \<Rightarrow> 'a list \<Rightarrow> 'a list" where
  "py_slice_from i xs = drop (slice_index (length xs) i) xs"

definition py_slice_to :: "int \<Rightarrow> 'a list \<Rightarrow> 'a list" where
  "py_slice_to j xs = take (slice_index (length xs) j) xs"

text \<open>\<^verbatim>\<open>sub in s\<close>\<close>

fun py_in :: "string \<Rightarrow> string \<Rightarrow> bool" where
  "py_in sub [] = (sub = [])"
| "py_in sub (c # cs) = (prefix sub (c # cs) \<or> py_in sub cs)"

text \<open>\<^verbatim>\<open>s.split(sep)\<close> for a one-character separator: the result is never empty.\<close>

fun py_split :: "char \<Rightarrow> string \<Rightarrow> string list" where
  "py_split sep [] = [[]]"
| "py_split sep (c # cs) =
     (case py_split sep cs of
        [] \<Rightarrow> [[c]]
      | f # fs \<Rightarrow> if c = sep then [] # f # fs else (c # f) # fs)"

text \<open>\<^verbatim>\<open>s.replace(old, new)\<close> for a one-character \<^verbatim>\<open>old\<close>.\<close>

definition py_replace_char :: "char \<Rightarrow> string \<Rightarrow> string \<Rightarrow> string" where
  "py_replace_char old new s = concat (map (\<lambda>c. if c = old then new else [c]) s)"

text \<open>\<^verbatim>\<open>sep.join(parts)\<close>\<close>

fun py_join :: "string \<Rightarrow> string list \<Rightarrow> string" where
  "py_join sep [] = []"
| "py_join sep [p] = p"
| "py_join sep (p # q # ps) = p @ sep @ py_join sep (q # ps)"

definition is_digit :: "char \<Rightarrow> bool" where
  "is_digit c = (c \<in> set ''0123456789'')"

definition digit_val :: "char \<Rightarrow> nat" where
  "digit_val c = (of_char c :: nat) - of_char (CHR ''0'')"

text \<open>The value of a string of decimal digits, most significant digit first.\<close>

definition digits_val :: "string \<Rightarrow> nat" where
  "digits_val ds = foldl (\<lambda>acc c. 10 * acc + digit_val c) 0 ds"

datatype py_error =
  ValueError | IndexError | InvalidOperation | DivisionByZero | Overflow | OverflowError

text \<open>
  The whitespace that \<^verbatim>\<open>int(s)\<close> and \<^verbatim>\<open>float(s)\<close> drop around a number: unlike
  \<^verbatim>\<open>str.strip\<close> they do not drop the separators U+001C to U+001F.
\<close>

definition py_numeric_space :: "char \<Rightarrow> bool" where
  "py_numeric_space c = (c \<in> set [CHR 0x09, CHR 0x0A, CHR 0x0B, CHR 0x0C, CHR 0x0D,
                                    CHR 0x20, CHR 0x85, CHR 0xA0])"

definition py_strip_numeric :: "string \<Rightarrow> string" where
  "py_strip_numeric s = rev (dropWhile py_numeric_space (rev (dropWhile py_numeric_space s)))"

text \<open>
  \<^verbatim>\<open>int(s)\<close> for a string in base ten: surrounding whitespace is dropped, one sign is
  allowed, and single underscores may separate digits. \<open>None\<close> stands for ValueError.
\<close>

fun int_body :: "nat \<Rightarrow> string \<Rightarrow> nat option" where
  "int_body acc [] = Some acc"
| "int_body acc [c] = (if is_digit c then Some (10 * acc + digit_val c) else None)"
| "int_body acc (c # d # ds) =
     (if is_digit c then int_body (10 * acc + digit_val c) (d # ds)
      else if c = CHR ''_'' \<and> is_digit d then int_body (10 * acc + digit_val d) ds
      else None)"

definition py_int :: "string \<Rightarrow> int option" where
  "py_int s =
     (let t = py_strip_numeric s;
          neg = (case t of c # _ \<Rightarrow> c = CHR ''-'' | [] \<Rightarrow> False);
          u = (case t of c # cs \<Rightarrow> if c = CHR ''-'' \<or> c = CHR ''+'' then cs else t | [] \<Rightarrow> [])
      in case u of
           [] \<Rightarrow> None
         | c # cs \<Rightarrow>
             if is_digit c
             then map_option (\<lambda>n. if neg then - int n else int n) (int_body (digit_val c) cs)
             else None)"

section \<open>Device settings (class FASettings)\<close>

record FASettings =
  channel :: "string option"
  imp50 :: "bool option"
  precision :: "bool option"
  ext_reference_osc :: "bool option"
  lpf :: "bool option"
  gate_time :: int

text \<open>\<^verbatim>\<open>FASettings()\<close> with the default arguments of the constructor.\<close>

definition FASettings_init :: FASettings where
  "FASettings_init =
     \<lparr>channel = None, imp50 = None, precision = None, ext_reference_osc = None,
      lpf = None, gate_time = 0\<rparr>"

definition update_settings :: "FASettings \<Rightarrow> FASettings \<Rightarrow> FASettings" where
  "update_settings self settings =
     (let s1 = (if channel settings \<noteq> None then self\<lparr>channel := channel settings\<rparr> else self);
          s2 = (if imp50 settings \<noteq> None then s1\<lparr>imp50 := imp50 settings\<rparr> else s1);
          s3 = (if precision settings \<noteq> None then s2\<lparr>precision := precision settings\<rparr> else s2);
          s4 = (if ext_reference_osc settings \<noteq> None
                then s3\<lparr>ext_reference_osc := ext_reference_osc settings\<rparr> else s3);
          s5 = (if lpf settings \<noteq> None then s4\<lparr>lpf := lpf settings\<rparr> else s4);
          s6 = (if gate_time settings > 0 then s5\<lparr>gate_time := gate_time settings\<rparr> else s5)
      in s6)"

section \<open>The decoder (preprocess_string)\<close>

datatype Category = POWER | FREQUENCY | UNKNOWN

text \<open>A character the function does not know falls off its end: the result is \<^verbatim>\<open>None\<close>.\<close>

definition channel_to_text :: "string \<Rightarrow> string option" where
  "channel_to_text channel_char =
     (if channel_char = ''A'' then Some ''Channel: 1''
      else if channel_char = ''B'' then Some ''Channel: 2''
      else if channel_char = ''T'' then Some ''Channel: Internal Clock''
      else None)"

text \<open>
  The decoder returns the measurements and the settings it read from one line. The only
  statement of it that can raise is \<^verbatim>\<open>int(...)\<close> in the AOK/GOK branch (ValueError);
  \<^verbatim>\<open>str_list[0]\<close> is kept as a branch as well.
\<close>

definition preprocess_string ::
  "string \<Rightarrow> py_error + ((Category \<times> string) list \<times> FASettings)" where
  "preprocess_string string =
     (let new_settings = FASettings_init;
          preprocessed_string = py_strip string
      in
      if py_in ''OK'' preprocessed_string then
        if py_in ''POK'' preprocessed_string then
          Inr ([(POWER, py_slice 2 (- 4) preprocessed_string)], new_settings)
        else if ''AOK'' = py_slice_from (- 3) preprocessed_string
              \<or> ''GOK'' = py_slice_from (- 3) preprocessed_string then
          (case py_int (py_slice (- 14) (- 7) preprocessed_string) of
             None \<Rightarrow> Inl ValueError
           | Some g \<Rightarrow> Inr ([], new_settings\<lparr>gate_time := g\<rparr>))
        else if ''DOK'' = py_slice_from (- 3) preprocessed_string then
          (let channel_char = py_slice 1 2 preprocessed_string;
               precisionmode_char = py_slice 2 3 preprocessed_string;
               refosc_char = py_slice 3 4 preprocessed_string;
               impedance_char = py_slice 4 5 preprocessed_string;
               lpf_char = py_slice 5 6 preprocessed_string
           in Inr ([], new_settings
                \<lparr>channel := channel_to_text channel_char,
                 precision := Some (precisionmode_char = ''P''),
                 ext_reference_osc := Some (refosc_char = ''E''),
                 imp50 := Some (impedance_char = ''R''),
                 lpf := Some (lpf_char = ''L'')\<rparr>))
        else if ''EOK'' = py_slice_from (- 3) preprocessed_string then
          (if ''LPF'' = py_slice 0 3 preprocessed_string
           then Inr ([], new_settings\<lparr>lpf := Some (''LPF ON EOK'' = preprocessed_string)\<rparr>)
           else Inr ([], new_settings))
        else if ''COK'' = py_slice_from (- 3) preprocessed_string then
          (if ''LPF'' = py_slice 4 7 preprocessed_string
           then Inr ([], new_settings\<lparr>lpf := Some (''CH1 LPF ON COK'' = preprocessed_string)\<rparr>)
           else Inr ([], new_settings))
        else Inr ([], new_settings)
      else
        if py_in ''$'' preprocessed_string then
          (let str_list = py_split (CHR '','') preprocessed_string
           in case str_list of
                [] \<Rightarrow> Inl IndexError
              | field0 # _ \<Rightarrow>
                  (let m1 = (FREQUENCY, py_slice 2 (- 3) field0)
                   in if length str_list = 3
                      then Inr ([m1, (POWER, str_list ! 1)], new_settings)
                      else Inr ([m1], new_settings)))
        else Inr ([], new_settings))"

section \<open>The decimal module: class Decimal in the default context\<close>

text \<open>
  The program computes with Python's \<^verbatim>\<open>decimal.Decimal\<close> in the default context:
  precision 28, rounding ROUND_HALF_EVEN, Emax 999999, Emin -999999, and the traps
  InvalidOperation, DivisionByZero and Overflow (a trapped signal raises). A finite number
  is a sign (\<open>True\<close> for minus), a coefficient and an exponent; its value is
  coefficient times ten to the exponent. The diagnostic digits of a NaN are not kept: no
  function of the program reads them. The operations follow the library's reference
  implementation; \<open>Inl\<close> is the exception an operation raises.
\<close>

datatype decimal =
    Finite bool nat int
  | Infinity bool
  | NaN bool bool   \<comment> \<open>sign, signaling\<close>

definition ctx_prec :: nat where "ctx_prec = 28"
definition ctx_Emax :: int where "ctx_Emax = 999999"
definition ctx_Emin :: int where "ctx_Emin = - 999999"
definition ctx_Etiny :: int where "ctx_Etiny = ctx_Emin - int ctx_prec + 1"
definition ctx_Etop :: int where "ctx_Etop = ctx_Emax - int ctx_prec + 1"

text \<open>The number of decimal digits of a coefficient: \<^verbatim>\<open>len(str(c))\<close>.\<close>

fun ndigits :: "nat \<Rightarrow> nat" where
  "ndigits c = (if c < 10 then 1 else Suc (ndigits (c div 10)))"

declare ndigits.simps [simp del]

text \<open>Dropping the \<open>k\<close> lowest digits of a coefficient, rounding half to even.\<close>

definition round_half_even :: "nat \<Rightarrow> nat \<Rightarrow> nat" where
  "round_half_even c k =
     (let q = c div 10 ^ k; r = c mod 10 ^ k
      in if 2 * r > 10 ^ k \<or> (2 * r = 10 ^ k \<and> odd q) then q + 1 else q)"

text \<open>
  Rounding a finite result to the context (\<^verbatim>\<open>_fix\<close>): a result above Emax raises
  Overflow; a coefficient of more than 28 digits, or a subnormal one, is rounded.
\<close>

definition ctx_fix :: "bool \<Rightarrow> nat \<Rightarrow> int \<Rightarrow> py_error + decimal" where
  "ctx_fix s c e =
     (if c = 0 then Inr (Finite s 0 (min (max e ctx_Etiny) ctx_Emax))
      else
        let exp_min0 = int (ndigits c) + e - int ctx_prec in
        if exp_min0 > ctx_Etop then Inl Overflow
        else
          let exp_min = max exp_min0 ctx_Etiny in
          if e < exp_min then
            (let coeff0 = round_half_even c (nat (exp_min - e));
                 carry = (ndigits coeff0 > ctx_prec);
                 coeff = (if carry then coeff0 div 10 else coeff0);
                 exp_min' = (if carry then exp_min + 1 else exp_min)
             in if exp_min' > ctx_Etop then Inl Overflow else Inr (Finite s coeff exp_min'))
          else Inr (Finite s c e))"

text \<open>
  \<^verbatim>\<open>_check_nans\<close>: a signaling NaN operand raises InvalidOperation, a quiet NaN operand
  is the result; \<open>None\<close> when neither operand is a NaN.
\<close>

definition is_snan :: "decimal \<Rightarrow> bool" where
  "is_snan d = (case d of NaN _ sig \<Rightarrow> sig | _ \<Rightarrow> False)"

definition is_qnan :: "decimal \<Rightarrow> bool" where
  "is_qnan d = (case d of NaN _ sig \<Rightarrow> \<not> sig | _ \<Rightarrow> False)"

definition check_nans :: "decimal \<Rightarrow> decimal \<Rightarrow> (py_error + decimal) option" where
  "check_nans a b =
     (if is_snan a \<or> is_snan b then Some (Inl InvalidOperation)
      else if is_qnan a then Some (Inr a)
      else if is_qnan b then Some (Inr b)
      else None)"

definition copy_negate :: "decimal \<Rightarrow> decimal" where
  "copy_negate d =
     (case d of Finite s c e \<Rightarrow> Finite (\<not> s) c e
              | Infinity s \<Rightarrow> Infinity (\<not> s)
              | NaN s sig \<Rightarrow> NaN (\<not> s) sig)"

definition signed_coeff :: "bool \<Rightarrow> nat \<Rightarrow> int" where
  "signed_coeff s c = (if s then - int c else int c)"

text \<open>\<^verbatim>\<open>a + b\<close>: the exact sum at the smaller exponent, rounded to the context.\<close>

definition dec_add :: "decimal \<Rightarrow> decimal \<Rightarrow> py_error + decimal" where
  "dec_add a b =
     (case check_nans a b of
        Some r \<Rightarrow> r
      | None \<Rightarrow>
         (case a of
            Infinity sa \<Rightarrow>
              (case b of Infinity sb \<Rightarrow> if sa \<noteq> sb then Inl InvalidOperation else Inr a
                       | _ \<Rightarrow> Inr a)
          | NaN _ _ \<Rightarrow> Inr a
          | Finite sa ca ea \<Rightarrow>
              (case b of
                 Infinity sb \<Rightarrow> Inr b
               | NaN _ _ \<Rightarrow> Inr b
               | Finite sb cb eb \<Rightarrow>
                   (let rexp = min ea eb in
                    if ca = 0 \<and> cb = 0 then ctx_fix (sa \<and> sb) 0 rexp
                    else
                      let v = signed_coeff sa ca * 10 ^ nat (ea - rexp)
                              + signed_coeff sb cb * 10 ^ nat (eb - rexp)
                      in if v = 0 then ctx_fix False 0 rexp
                         else ctx_fix (v < 0) (nat \<bar>v\<bar>) rexp))))"

text \<open>\<^verbatim>\<open>a - b\<close>\<close>

definition dec_sub :: "decimal \<Rightarrow> decimal \<Rightarrow> py_error + decimal" where
  "dec_sub a b =
     (case check_nans a b of
        Some r \<Rightarrow> r
      | None \<Rightarrow> dec_add a (copy_negate b))"

definition is_zero :: "decimal \<Rightarrow> bool" where
  "is_zero d = (case d of Finite _ c _ \<Rightarrow> c = 0 | _ \<Rightarrow> False)"

definition dec_sign :: "decimal \<Rightarrow> bool" where
  "dec_sign d = (case d of Finite s _ _ \<Rightarrow> s | Infinity s \<Rightarrow> s | NaN s _ \<Rightarrow> s)"

text \<open>\<^verbatim>\<open>a * b\<close>\<close>

definition dec_mul :: "decimal \<Rightarrow> decimal \<Rightarrow> py_error + decimal" where
  "dec_mul a b =
     (case check_nans a b of
        Some r \<Rightarrow> r
      | None \<Rightarrow>
         (let sign = (dec_sign a \<noteq> dec_sign b) in
          case a of
            Infinity _ \<Rightarrow> if is_zero b then Inl InvalidOperation else Inr (Infinity sign)
          | NaN _ _ \<Rightarrow> Inr a
          | Finite _ ca ea \<Rightarrow>
              (case b of
                 Infinity _ \<Rightarrow> if ca = 0 then Inl InvalidOperation else Inr (Infinity sign)
               | NaN _ _ \<Rightarrow> Inr b
               | Finite _ cb eb \<Rightarrow> ctx_fix sign (ca * cb) (ea + eb))))"

text \<open>
  The loop of the division that brings an exact quotient as close to the ideal exponent
  as trailing zeros allow; \<open>n\<close> is the distance to the ideal exponent.
\<close>

fun strip_zeros :: "nat \<Rightarrow> nat \<Rightarrow> int \<Rightarrow> nat \<times> int" where
  "strip_zeros 0 c e = (c, e)"
| "strip_zeros (Suc n) c e =
     (if c mod 10 = 0 then strip_zeros n (c div 10) (e + 1) else (c, e))"

text \<open>
  \<^verbatim>\<open>a / b\<close>. Division of a nonzero number by zero raises DivisionByZero; zero
  by zero raises DivisionUndefined, a subclass of InvalidOperation.
\<close>

definition dec_div :: "decimal \<Rightarrow> decimal \<Rightarrow> py_error + decimal" where
  "dec_div a b =
     (case check_nans a b of
        Some r \<Rightarrow> r
      | None \<Rightarrow>
         (let sign = (dec_sign a \<noteq> dec_sign b) in
          case a of
            Infinity _ \<Rightarrow>
              (case b of Infinity _ \<Rightarrow> Inl InvalidOperation | _ \<Rightarrow> Inr (Infinity sign))
          | NaN _ _ \<Rightarrow> Inr a
          | Finite _ ca ea \<Rightarrow>
              (case b of
                 Infinity _ \<Rightarrow> Inr (Finite sign 0 ctx_Etiny)
               | NaN _ _ \<Rightarrow> Inr b
               | Finite _ cb eb \<Rightarrow>
                   if cb = 0 then (if ca = 0 then Inl InvalidOperation else Inl DivisionByZero)
                   else if ca = 0 then ctx_fix sign 0 (ea - eb)
                   else
                     (let shift = int (ndigits cb) - int (ndigits ca) + int ctx_prec + 1;
                          rexp = ea - eb - shift;
                          num = (if shift \<ge> 0 then ca * 10 ^ nat shift else ca);
                          den = (if shift \<ge> 0 then cb else cb * 10 ^ nat (- shift));
                          coeff = num div den;
                          remainder = num mod den
                      in if remainder \<noteq> 0
                         then ctx_fix sign (if coeff mod 5 = 0 then coeff + 1 else coeff) rexp
                         else (case strip_zeros (nat (ea - eb - rexp)) coeff rexp of
                                 (coeff', rexp') \<Rightarrow> ctx_fix sign coeff' rexp')))))"

text \<open>\<^verbatim>\<open>abs(a)\<close>: the sign is cleared and the result rounded to the context.\<close>

definition dec_abs :: "decimal \<Rightarrow> py_error + decimal" where
  "dec_abs a =
     (case a of
        NaN s sig \<Rightarrow> if sig then Inl InvalidOperation else Inr a
      | Infinity s \<Rightarrow> Inr (Infinity False)
      | Finite s c e \<Rightarrow> ctx_fix False c e)"

text \<open>
  \<^verbatim>\<open>round(a, n)\<close>, that is \<^verbatim>\<open>a.quantize(Decimal((0, (1,), -n)))\<close>: the value at
  exponent \<open>-n\<close>, rounded half to even; InvalidOperation when the result would need more
  than 28 digits or the exponent is out of range.
\<close>

definition rescale :: "nat \<Rightarrow> int \<Rightarrow> int \<Rightarrow> nat" where
  "rescale c e x = (if e \<ge> x then c * 10 ^ nat (e - x) else round_half_even c (nat (x - e)))"

definition dec_round :: "decimal \<Rightarrow> int \<Rightarrow> py_error + decimal" where
  "dec_round a n =
     (case a of
        NaN s sig \<Rightarrow> if sig then Inl InvalidOperation else Inr a
      | Infinity s \<Rightarrow> Inl InvalidOperation
      | Finite s c e \<Rightarrow>
          (let x = - n in
           if \<not> (ctx_Etiny \<le> x \<and> x \<le> ctx_Emax) then Inl InvalidOperation
           else if c = 0 then ctx_fix s 0 x
           else
             let adj = int (ndigits c) + e - 1 in
             if adj > ctx_Emax then Inl InvalidOperation
             else if adj - x + 1 > int ctx_prec then Inl InvalidOperation
             else
               let c' = rescale c e x in
               if int (ndigits c') + x - 1 > ctx_Emax then Inl InvalidOperation
               else if ndigits c' > ctx_prec then Inl InvalidOperation
               else ctx_fix s c' x))"

text \<open>\<^verbatim>\<open>a == 0\<close> and \<^verbatim>\<open>a > 0\<close>: an ordering comparison raises on every NaN, an equality
  only on a signaling one.\<close>

definition dec_eq0 :: "decimal \<Rightarrow> py_error + bool" where
  "dec_eq0 a =
     (case a of
        NaN s sig \<Rightarrow> if sig then Inl InvalidOperation else Inr False
      | Infinity s \<Rightarrow> Inr False
      | Finite s c e \<Rightarrow> Inr (c = 0))"

definition dec_gt0 :: "decimal \<Rightarrow> py_error + bool" where
  "dec_gt0 a =
     (case a of
        NaN s sig \<Rightarrow> Inl InvalidOperation
      | Infinity s \<Rightarrow> Inr (\<not> s)
      | Finite s c e \<Rightarrow> Inr (c \<noteq> 0 \<and> \<not> s))"

text \<open>\<^verbatim>\<open>Decimal(i)\<close> for an integer.\<close>

definition dec_of_int :: "int \<Rightarrow> decimal" where
  "dec_of_int i = Finite (i < 0) (nat \<bar>i\<bar>) 0"

text \<open>
  \<^verbatim>\<open>Decimal(s)\<close> for a string: surrounding whitespace and all underscores are dropped;
  then an optional sign and either digits with an optional point and an optional exponent
  (at least one digit), or Inf/Infinity, or NaN/sNaN with optional digits, in any letter
  case. \<open>None\<close> stands for InvalidOperation (ConversionSyntax).
\<close>

definition py_lower :: "char \<Rightarrow> char" where
  "py_lower c =
     (if (65::nat) \<le> of_char c \<and> (of_char c :: nat) \<le> 90
      then char_of ((of_char c :: nat) + 32) else c)"

definition parse_exponent :: "string \<Rightarrow> int option" where
  "parse_exponent r =
     (case r of
        [] \<Rightarrow> Some 0
      | c # x \<Rightarrow>
          if c \<noteq> CHR ''e'' then None
          else
            (let neg = (case x of d # _ \<Rightarrow> d = CHR ''-'' | [] \<Rightarrow> False);
                 ds = (case x of d # y \<Rightarrow> if d = CHR ''-'' \<or> d = CHR ''+'' then y else x
                               | [] \<Rightarrow> [])
             in if ds \<noteq> [] \<and> list_all is_digit ds
                then Some (if neg then - int (digits_val ds) else int (digits_val ds))
                else None))"

definition Decimal_of_str :: "string \<Rightarrow> decimal option" where
  "Decimal_of_str s =
     (let t = filter (\<lambda>c. c \<noteq> CHR ''_'') (py_strip s);
          sign = (case t of c # _ \<Rightarrow> c = CHR ''-'' | [] \<Rightarrow> False);
          u = (case t of c # cs \<Rightarrow> if c = CHR ''-'' \<or> c = CHR ''+'' then cs else t | [] \<Rightarrow> []);
          l = map py_lower u
      in
      if l = ''inf'' \<or> l = ''infinity'' then Some (Infinity sign)
      else if take 3 l = ''nan'' \<and> list_all is_digit (drop 3 l) then Some (NaN sign False)
      else if take 4 l = ''snan'' \<and> list_all is_digit (drop 4 l) then Some (NaN sign True)
      else
        let intpart = takeWhile is_digit l;
            r1 = dropWhile is_digit l;
            frac = (case r1 of c # r \<Rightarrow> if c = CHR ''.'' then takeWhile is_digit r else []
                             | [] \<Rightarrow> []);
            r2 = (case r1 of c # r \<Rightarrow> if c = CHR ''.'' then dropWhile is_digit r else r1
                           | [] \<Rightarrow> [])
        in if intpart = [] \<and> frac = [] then None
           else (case parse_exponent r2 of
                   None \<Rightarrow> None
                 | Some x \<Rightarrow> Some (Finite sign (digits_val (intpart @ frac))
                                      (x - int (length frac)))))"

text \<open>\<^verbatim>\<open>str(n)\<close> for a natural number and for an integer with an explicit sign (\<^verbatim>\<open>"%+d"\<close>).\<close>

definition digit_char :: "nat \<Rightarrow> char" where
  "digit_char d = ''0123456789'' ! d"

fun str_nat :: "nat \<Rightarrow> string" where
  "str_nat n =
     (if n < 10 then [digit_char n]
      else str_nat (n div 10) @ [digit_char (n mod 10)])"

declare str_nat.simps [simp del]

definition str_int :: "int \<Rightarrow> string" where
  "str_int i = (if i < 0 then ''-'' @ str_nat (nat (- i)) else str_nat (nat i))"

definition str_int_signed :: "int \<Rightarrow> string" where
  "str_int_signed i = (if i < 0 then ''-'' @ str_nat (nat (- i)) else ''+'' @ str_nat (nat i))"

text \<open>\<^verbatim>\<open>str(d)\<close>: the scientific string of a decimal.\<close>

definition dec_str :: "decimal \<Rightarrow> string" where
  "dec_str d =
     (case d of
        Infinity s \<Rightarrow> (if s then ''-'' else '''') @ ''Infinity''
      | NaN s sig \<Rightarrow> (if s then ''-'' else '''') @ (if sig then ''sNaN'' else ''NaN'')
      | Finite s c e \<Rightarrow>
          (let digs = str_nat c;
               leftdigits = e + int (length digs);
               dotplace = (if e \<le> 0 \<and> leftdigits > - 6 then leftdigits else 1);
               intpart = (if dotplace \<le> 0 then ''0''
                          else if dotplace \<ge> int (length digs)
                          then digs @ replicate (nat (dotplace - int (length digs))) (CHR ''0'')
                          else take (nat dotplace) digs);
               fracpart = (if dotplace \<le> 0
                           then ''.'' @ replicate (nat (- dotplace)) (CHR ''0'') @ digs
                           else if dotplace \<ge> int (length digs) then ''''
                           else ''.'' @ drop (nat dotplace) digs);
               rexp = (if leftdigits = dotplace then ''''
                      else ''E'' @ str_int_signed (leftdigits - dotplace))
           in (if s then ''-'' else '''') @ intpart @ fracpart @ rexp))"

section \<open>Binary floating point: the float type\<close>

text \<open>
  A Python float is an IEEE 754 double. A finite double is a sign (\<open>True\<close> for minus), a
  natural number \<open>m\<close> and an exponent \<open>k\<close>, with the value \<open>m * 2^k\<close>. Conversions and
  products are rounded to the nearest double, ties to even; a result of magnitude
  \<open>2^1024\<close> or more is an infinity, and below \<open>2^-1022\<close> the spacing of the doubles
  stays \<open>2^-1074\<close>.
\<close>

datatype pyfloat = FloatFinite bool nat int | FloatInf bool | FloatNaN

text \<open>The number of binary digits of a natural number.\<close>

fun bitlen :: "nat \<Rightarrow> nat" where
  "bitlen n = (if n = 0 then 0 else Suc (bitlen (n div 2)))"

declare bitlen.simps [simp del]

text \<open>\<open>2^e \<le> p / q\<close>, for \<open>q > 0\<close>.\<close>

definition ge_pow2 :: "nat \<Rightarrow> nat \<Rightarrow> int \<Rightarrow> bool" where
  "ge_pow2 p q e = (if e \<ge> 0 then q * 2 ^ nat e \<le> p else q \<le> p * 2 ^ nat (- e))"

text \<open>
  The double nearest to the ratio \<open>p / q\<close> of two natural numbers (\<open>q > 0\<close>), with the
  sign \<open>s\<close>. The floor \<open>e\<close> of the binary logarithm of the ratio is the difference of
  the bit lengths or one less; the last binary place kept is \<open>k\<close>.
\<close>

definition round_ratio :: "bool \<Rightarrow> nat \<Rightarrow> nat \<Rightarrow> pyfloat" where
  "round_ratio s p q =
     (if p = 0 then FloatFinite s 0 0
      else
        let e0 = int (bitlen p) - int (bitlen q);
            e = (if ge_pow2 p q e0 then e0 else e0 - 1);
            k = max (e - 52) (- 1074);
            num = (if k \<ge> 0 then p else p * 2 ^ nat (- k));
            den = (if k \<ge> 0 then q * 2 ^ nat k else q);
            m0 = num div den;
            r = num mod den;
            m = (if 2 * r > den \<or> (2 * r = den \<and> odd m0) then m0 + 1 else m0)
        in if m \<noteq> 0 \<and> int (bitlen m) + k > 1024 then FloatInf s
           else FloatFinite s m k)"

text \<open>
  In the text of a float an underscore is allowed between two digits only.
\<close>

fun underscores_ok :: "char option \<Rightarrow> string \<Rightarrow> bool" where
  "underscores_ok prev [] = True"
| "underscores_ok prev (c # cs) =
     (if c = CHR ''_''
      then (case prev of Some p \<Rightarrow> is_digit p | None \<Rightarrow> False)
           \<and> (case cs of d # _ \<Rightarrow> is_digit d | [] \<Rightarrow> False)
           \<and> underscores_ok (Some c) cs
      else underscores_ok (Some c) cs)"

text \<open>
  \<^verbatim>\<open>float(s)\<close> for a string: surrounding whitespace is dropped; then an optional sign
  and either digits with an optional point and an optional exponent (at least one digit),
  or inf, infinity or nan in any letter case. The decimal value, the digits times ten to
  the exponent \<open>x\<close>, is rounded to the nearest double. \<open>None\<close> stands for ValueError.
\<close>

definition float_of_str :: "string \<Rightarrow> pyfloat option" where
  "float_of_str s =
     (let t = py_strip_numeric s;
          sign = (case t of c # _ \<Rightarrow> c = CHR ''-'' | [] \<Rightarrow> False);
          u = (case t of c # cs \<Rightarrow> if c = CHR ''-'' \<or> c = CHR ''+'' then cs else t | [] \<Rightarrow> []);
          l = map py_lower u
      in
      if l = ''inf'' \<or> l = ''infinity'' then Some (FloatInf sign)
      else if l = ''nan'' then Some FloatNaN
      else if \<not> underscores_ok None l then None
      else
        let d = filter (\<lambda>c. c \<noteq> CHR ''_'') l;
            intpart = takeWhile is_digit d;
            r1 = dropWhile is_digit d;
            frac = (case r1 of c # r \<Rightarrow> if c = CHR ''.'' then takeWhile is_digit r else []
                             | [] \<Rightarrow> []);
            r2 = (case r1 of c # r \<Rightarrow> if c = CHR ''.'' then dropWhile is_digit r else r1
                           | [] \<Rightarrow> [])
        in if intpart = [] \<and> frac = [] then None
           else (case parse_exponent r2 of
                   None \<Rightarrow> None
                 | Some x0 \<Rightarrow>
                     (let x = x0 - int (length frac);
                          c = digits_val (intpart @ frac)
                      in Some (if x \<ge> 0 then round_ratio sign (c * 10 ^ nat x) 1
                               else round_ratio sign c (10 ^ nat (- x))))))"

text \<open>\<^verbatim>\<open>a * b\<close> on floats: the exact product, rounded.\<close>

definition float_mul :: "pyfloat \<Rightarrow> pyfloat \<Rightarrow> pyfloat" where
  "float_mul a b =
     (case a of
        FloatNaN \<Rightarrow> FloatNaN
      | FloatInf sa \<Rightarrow>
          (case b of
             FloatNaN \<Rightarrow> FloatNaN
           | FloatInf sb \<Rightarrow> FloatInf (sa \<noteq> sb)
           | FloatFinite sb mb kb \<Rightarrow> if mb = 0 then FloatNaN else FloatInf (sa \<noteq> sb))
      | FloatFinite sa ma ka \<Rightarrow>
          (case b of
             FloatNaN \<Rightarrow> FloatNaN
           | FloatInf sb \<Rightarrow> if ma = 0 then FloatNaN else FloatInf (sa \<noteq> sb)
           | FloatFinite sb mb kb \<Rightarrow>
               (let kk = ka + kb
                in if kk \<ge> 0 then round_ratio (sa \<noteq> sb) (ma * mb * 2 ^ nat kk) 1
                   else round_ratio (sa \<noteq> sb) (ma * mb) (2 ^ nat (- kk)))))"

text \<open>
  \<^verbatim>\<open>int(x)\<close> on a float: the value without its fractional part; an infinity raises
  OverflowError and a NaN raises ValueError.
\<close>

definition int_of_float :: "pyfloat \<Rightarrow> py_error + int" where
  "int_of_float x =
     (case x of
        FloatNaN \<Rightarrow> Inl ValueError
      | FloatInf s \<Rightarrow> Inl OverflowError
      | FloatFinite s m k \<Rightarrow>
          (let mag = (if k \<ge> 0 then m * 2 ^ nat k else m div 2 ^ nat (- k))
           in Inr (if s then - int mag else int mag)))"

section \<open>The measurement log (class MeasureLog)\<close>

text \<open>
  The log keeps the raw lines, the frequency samples and the power samples, each with the
  seconds elapsed since the start of the session. The readings of the clock
  (\<^verbatim>\<open>time.time()\<close>) are parameters of the functions that take them; they are real
  numbers here, and no statement below depends on how a timestamp is rounded.
\<close>

record MeasureLog =
  strings :: "(string \<times> real) list"
  frequencies :: "(decimal \<times> real) list"
  power :: "(decimal \<times> real) list"
  start_time :: real
  reset_on_the_next_read :: bool
  latest_settings :: FASettings

text \<open>\<^verbatim>\<open>MeasureLog()\<close>, created at clock reading \<open>now\<close>.\<close>

definition MeasureLog_init :: "real \<Rightarrow> MeasureLog" where
  "MeasureLog_init now =
     \<lparr>strings = [], frequencies = [], power = [], start_time = now,
      reset_on_the_next_read = True, latest_settings = FASettings_init\<rparr>"

definition reset :: "real \<Rightarrow> bool \<Rightarrow> MeasureLog \<Rightarrow> MeasureLog" where
  "reset now reset_time self =
     (let s1 = self\<lparr>strings := [], frequencies := [], power := []\<rparr>;
          s2 = (if reset_time then s1\<lparr>start_time := now\<rparr> else s1)
      in s2\<lparr>reset_on_the_next_read := False\<rparr>)"

definition reset_on_next_read :: "MeasureLog \<Rightarrow> MeasureLog" where
  "reset_on_next_read self = self\<lparr>reset_on_the_next_read := True\<rparr>"

text \<open>
  The loop of \<^verbatim>\<open>add_string\<close> over the measurements of one line. The \<^verbatim>\<open>try\<close> block
  catches InvalidOperation only: a payload that is no decimal (\<open>None\<close>) is skipped, and so
  is a signaling NaN divided by ten; every other exception of the division leaves the
  loop and the function, with the log as it is at that moment.
\<close>

fun add_measurements ::
  "real \<Rightarrow> (Category \<times> string) list \<Rightarrow> MeasureLog \<Rightarrow> py_error option \<times> MeasureLog" where
  "add_measurements timestamp [] self = (None, self)"
| "add_measurements timestamp ((category, preprocessed_string) # rest) self =
     (case Decimal_of_str preprocessed_string of
        None \<Rightarrow> add_measurements timestamp rest self
      | Some number \<Rightarrow>
          if category = FREQUENCY then
            add_measurements timestamp rest
              (self\<lparr>frequencies := frequencies self @ [(number, timestamp)]\<rparr>)
          else if category = POWER then
            (case dec_div number (dec_of_int 10) of
               Inl e \<Rightarrow>
                 if e = InvalidOperation then add_measurements timestamp rest self
                 else (Some e, self)
             | Inr tenth \<Rightarrow>
                 add_measurements timestamp rest
                   (self\<lparr>power := power self @ [(tenth, timestamp)]\<rparr>))
          else add_measurements timestamp rest self)"

text \<open>
  \<^verbatim>\<open>add_string\<close>: \<open>now_reset\<close> is the clock reading taken by a pending reset,
  \<open>now\<close> the one taken for the timestamp. The result is the exception that left the
  function, if any, and the log afterwards (the object is updated in place, so what was
  done before an exception stays done).
\<close>

definition add_string ::
  "real \<Rightarrow> real \<Rightarrow> MeasureLog \<Rightarrow> string \<Rightarrow> py_error option \<times> MeasureLog" where
  "add_string now_reset now self single_line_string =
     (let s1 = (if reset_on_the_next_read self then reset now_reset True self else self);
          timestamp = now - start_time s1
      in case preprocess_string single_line_string of
           Inl e \<Rightarrow> (Some e, s1)
         | Inr (measurements, new_settings) \<Rightarrow>
             (let s2 = s1\<lparr>strings := strings s1 @ [(single_line_string, timestamp)]\<rparr>;
                  s3 = s2\<lparr>latest_settings := update_settings (latest_settings s2) new_settings\<rparr>
              in add_measurements timestamp measurements s3))"

text \<open>
  The statistics return a Decimal, or the float \<^verbatim>\<open>0.0\<close> on an empty sequence.
\<close>

datatype py_number = DecimalVal decimal | FloatZero

text \<open>
  \<^verbatim>\<open>sum(values)\<close> starts from the integer 0: the first step is \<^verbatim>\<open>v.__radd__(0)\<close>,
  that is \<open>v + Decimal(0)\<close>, and every later one adds the next value to the sum so far.
\<close>

fun sum_from :: "decimal \<Rightarrow> decimal list \<Rightarrow> py_error + decimal" where
  "sum_from acc [] = Inr acc"
| "sum_from acc (v # vs) =
     (case dec_add acc v of Inl e \<Rightarrow> Inl e | Inr acc' \<Rightarrow> sum_from acc' vs)"

definition average_value :: "(decimal \<times> real) list \<Rightarrow> py_error + py_number" where
  "average_value data =
     (case map fst data of
        [] \<Rightarrow> Inr FloatZero
      | v # vs \<Rightarrow>
          (case dec_add v (dec_of_int 0) of
             Inl e \<Rightarrow> Inl e
           | Inr first_sum \<Rightarrow>
               (case sum_from first_sum vs of
                  Inl e \<Rightarrow> Inl e
                | Inr values_sum \<Rightarrow>
                    (case dec_div values_sum (dec_of_int (int (length data))) of
                       Inl e \<Rightarrow> Inl e
                     | Inr mean \<Rightarrow> Inr (DecimalVal mean)))))"

text \<open>
  \<^verbatim>\<open>get_freq_difference\<close>. The arguments are the values of \<^verbatim>\<open>Decimal(freq)\<close> and
  \<^verbatim>\<open>Decimal(target_freq)\<close>. The expression
  \<^verbatim>\<open>int(math.floor(math.log10(x)))\<close> goes through binary floating point; it is the
  parameter \<open>floor_log10\<close>, with \<open>Inl\<close> for the exception it raises (a zero or a NaN
  argument, an infinite one).
\<close>

definition auto_target ::
  "(decimal \<Rightarrow> py_error + int) \<Rightarrow> decimal \<Rightarrow> py_error + decimal" where
  "auto_target floor_log10 frequency =
     (case dec_add frequency (Finite False 1 (- 1)) of
        Inl e \<Rightarrow> Inl e
      | Inr shifted \<Rightarrow>
          (case dec_abs shifted of
             Inl e \<Rightarrow> Inl e
           | Inr magnitude \<Rightarrow>
               (case floor_log10 magnitude of
                  Inl e \<Rightarrow> Inl e
                | Inr l \<Rightarrow> dec_round frequency (- l + 3))))"

definition ppm_of :: "decimal \<Rightarrow> decimal \<Rightarrow> py_error + py_number" where
  "ppm_of difference target_frequency =
     (case dec_gt0 target_frequency of
        Inl e \<Rightarrow> Inl e
      | Inr target_positive \<Rightarrow>
          if target_positive then
            (case dec_mul difference (dec_of_int 1000000) of
               Inl e \<Rightarrow> Inl e
             | Inr scaled \<Rightarrow>
                 (case dec_div scaled target_frequency of
                    Inl e \<Rightarrow> Inl e
                  | Inr q \<Rightarrow> Inr (DecimalVal q)))
          else Inr FloatZero)"

definition get_freq_difference ::
  "(decimal \<Rightarrow> py_error + int) \<Rightarrow> MeasureLog \<Rightarrow> decimal \<Rightarrow> decimal
     \<Rightarrow> py_error + (decimal \<times> decimal \<times> py_number)" where
  "get_freq_difference floor_log10 self freq target_freq =
     (case dec_eq0 freq of
        Inl e \<Rightarrow> Inl e
      | Inr freq_is_zero \<Rightarrow>
          (case (if freq_is_zero \<and> length (frequencies self) > 0
                 then (case average_value (frequencies self) of
                         Inl e \<Rightarrow> Inl e
                       | Inr (DecimalVal mean) \<Rightarrow> Inr mean
                       | Inr FloatZero \<Rightarrow> Inr (Finite False 0 0))
                 else Inr freq) of
             Inl e \<Rightarrow> Inl e
           | Inr frequency \<Rightarrow>
               (case dec_eq0 target_freq of
                  Inl e \<Rightarrow> Inl e
                | Inr target_is_zero \<Rightarrow>
                    (case (if target_is_zero then auto_target floor_log10 frequency
                           else Inr target_freq) of
                       Inl e \<Rightarrow> Inl e
                     | Inr target_frequency \<Rightarrow>
                         (case dec_sub frequency target_frequency of
                            Inl e \<Rightarrow> Inl e
                          | Inr difference \<Rightarrow>
                              (case ppm_of difference target_frequency of
                                 Inl e \<Rightarrow> Inl e
                               | Inr ppm \<Rightarrow> Inr (target_frequency, difference, ppm)))))))"

text \<open>
  The floor of the base-ten logarithm of a positive finite decimal, computed exactly; the
  floating-point expression of the program gives the same integer whenever its argument is
  not within rounding distance of a power of ten.
\<close>

definition exact_floor_log10 :: "decimal \<Rightarrow> py_error + int" where
  "exact_floor_log10 d =
     (case d of
        Finite s c e \<Rightarrow> if c = 0 \<or> s then Inl ValueError else Inr (int (ndigits c) - 1 + e)
      | Infinity s \<Rightarrow> if s then Inl ValueError else Inl OverflowError
      | NaN s sig \<Rightarrow> Inl ValueError)"

text \<open>A finite decimal has the value of the integer \<open>i\<close>.\<close>

definition dec_is_int :: "decimal \<Rightarrow> int \<Rightarrow> bool" where
  "dec_is_int d i =
     (case d of
        Finite s c e \<Rightarrow> signed_coeff s c * 10 ^ nat e = i * 10 ^ nat (- e)
      | _ \<Rightarrow> False)"

section \<open>Commands\<close>

text \<open>\<^verbatim>\<open>str.zfill(width)\<close>: zeros are put after a leading sign.\<close>

definition py_zfill :: "nat \<Rightarrow> string \<Rightarrow> string" where
  "py_zfill width s =
     (if length s \<ge> width then s
      else case s of
             [] \<Rightarrow> replicate width (CHR ''0'')
           | c # cs \<Rightarrow>
               if c = CHR ''+'' \<or> c = CHR ''-''
               then c # replicate (width - length s) (CHR ''0'') @ cs
               else replicate (width - length s) (CHR ''0'') @ s)"

text \<open>
  \<^verbatim>\<open>int(float(gatetime) * 1000)\<close> for the text of a gate time: the conversion to a
  double, the product with 1000 in double precision, and the truncation to an integer.
\<close>

definition gate_time_ms :: "string \<Rightarrow> py_error + int" where
  "gate_time_ms gatetime =
     (case float_of_str gatetime of
        None \<Rightarrow> Inl ValueError
      | Some x \<Rightarrow> int_of_float (float_mul x (FloatFinite False 1000 0)))"

definition make_gate_time_command :: "string \<Rightarrow> py_error + string" where
  "make_gate_time_command gatetime =
     (case gate_time_ms gatetime of
        Inl e \<Rightarrow> Inl e
      | Inr ms \<Rightarrow>
          (let gatetimestr = py_zfill 5 (str_int ms);
               commandstr = ''$A'' @ gatetimestr @ ''*''
           in Inr commandstr))"

text \<open>The enumeration of the fixed commands and the text of each.\<close>

datatype Commands =
    GET_GATE_TIME_SETTING
  | GET_FREQ_POWER_SETTINGS
  | GET_PROD_VERSION
  | RESET
  | SET_INTERNAL_10M_REF
  | SET_CH1_FREQ_AND_POWER
  | SET_CH2_FREQ_AND_POWER
  | CH1_50_IMPEDANCE
  | CH1_1M_IMPEDANCE
  | CH1_LPF_ON
  | CH1_LPF_OFF
  | HIGH_PRECISION_ON
  | HIGH_PRECISION_OFF
  | SEND_FREQ_AFTER_MEASURE
  | SEND_FREQ_AND_POWER
  | USE_D_FOR_FREQ_POWER
  | SET_BAUD_RATE_4800_BPS
  | SET_BAUD_RATE_9600_BPS
  | SET_BAUD_RATE_19200_BPS
  | SET_BAUD_RATE_38400_BPS
  | SET_BAUD_RATE_57600_BPS
  | SET_BAUD_RATE_115200_BPS
  | SET_GATE_TIME_100MS
  | SET_GATE_TIME_1000MS
  | SET_GATE_TIME_2000MS
  | SET_GATE_TIME_20000MS
  | EE_SELF_TEST_ON_POWER_UP
  | EE_CH1_FREQ_ON_POWER_UP
  | EE_CH2_FREQ_ON_POWER_UP
  | EE_CH1_50_OHMS_SAVE_EEPROM
  | EE_CH1_1MOHMS_SAVE_EEPROM
  | EE_BEEP_ON_SAVE_EEPROM
  | EE_BEEP_OFF_SAVE_EEPROM
  | EE_PRECISION_MODE_ON
  | EE_PRECISION_MODE_OFF
  | EE_TURN_ON_LPF_SAVE_EEPROM
  | EE_TURN_OFF_LPF_SAVE_EEPROM
  | EE_CALIBRATE_CH1_50_OHMS_0_DBM
  | EE_CALIBRATE_CH1_50_OHMS_MINUS_20_DBM
  | EE_CALIBRATE_CH1_50_OHMS_5_DBM
  | EE_CALIBRATE_CH2_0_DBM
  | EE_CALIBRATE_CH2_MINUS_20_DBM
  | EE_SAVE_CH1_NOISE_FLOOR
  | EE_SAVE_CH2_NOISE_FLOOR
  | EE_AUTO_SEND_FREQ
  | EE_AUTO_SEND_FREQ_POWER
  | EE_QUERY_FREQ_POWER_MANUALLY

fun Commands_value :: "Commands \<Rightarrow> string" where
  "Commands_value GET_GATE_TIME_SETTING = ''$G*''"
| "Commands_value GET_FREQ_POWER_SETTINGS = ''$D*''"
| "Commands_value GET_PROD_VERSION = ''$V*''"
| "Commands_value RESET = ''$R*''"
| "Commands_value SET_INTERNAL_10M_REF = ''$C0000*''"
| "Commands_value SET_CH1_FREQ_AND_POWER = ''$C0101*''"
| "Commands_value SET_CH2_FREQ_AND_POWER = ''$C0202*''"
| "Commands_value CH1_50_IMPEDANCE = ''$C0303*''"
| "Commands_value CH1_1M_IMPEDANCE = ''$C0404*''"
| "Commands_value CH1_LPF_ON = ''$C0505*''"
| "Commands_value CH1_LPF_OFF = ''$C0606*''"
| "Commands_value HIGH_PRECISION_ON = ''$C0707*''"
| "Commands_value HIGH_PRECISION_OFF = ''$C0808*''"
| "Commands_value SEND_FREQ_AFTER_MEASURE = ''$C0909*''"
| "Commands_value SEND_FREQ_AND_POWER = ''$C1010*''"
| "Commands_value USE_D_FOR_FREQ_POWER = ''$C1111*''"
| "Commands_value SET_BAUD_RATE_4800_BPS = ''$C2020*''"
| "Commands_value SET_BAUD_RATE_9600_BPS = ''$C2121*''"
| "Commands_value SET_BAUD_RATE_19200_BPS = ''$C2222*''"
| "Commands_value SET_BAUD_RATE_38400_BPS = ''$C2323*''"
| "Commands_value SET_BAUD_RATE_57600_BPS = ''$C2424*''"
| "Commands_value SET_BAUD_RATE_115200_BPS = ''$C2525*''"
| "Commands_value SET_GATE_TIME_100MS = ''$A00100*''"
| "Commands_value SET_GATE_TIME_1000MS = ''$A01000*''"
| "Commands_value SET_GATE_TIME_2000MS = ''$A02000*''"
| "Commands_value SET_GATE_TIME_20000MS = ''$A20000*''"
| "Commands_value EE_SELF_TEST_ON_POWER_UP = ''$E2020*''"
| "Commands_value EE_CH1_FREQ_ON_POWER_UP = ''$E2121*''"
| "Commands_value EE_CH2_FREQ_ON_POWER_UP = ''$E2222*''"
| "Commands_value EE_CH1_50_OHMS_SAVE_EEPROM = ''$E3030*''"
| "Commands_value EE_CH1_1MOHMS_SAVE_EEPROM = ''$E3131*''"
| "Commands_value EE_BEEP_ON_SAVE_EEPROM = ''$E3232*''"
| "Commands_value EE_BEEP_OFF_SAVE_EEPROM = ''$E3333*''"
| "Commands_value EE_PRECISION_MODE_ON = ''$E3434*''"
| "Commands_value EE_PRECISION_MODE_OFF = ''$E3535*''"
| "Commands_value EE_TURN_ON_LPF_SAVE_EEPROM = ''$E3636*''"
| "Commands_value EE_TURN_OFF_LPF_SAVE_EEPROM = ''$E3737*''"
| "Commands_value EE_CALIBRATE_CH1_50_OHMS_0_DBM = ''$E4040*''"
| "Commands_value EE_CALIBRATE_CH1_50_OHMS_MINUS_20_DBM = ''$E4141*''"
| "Commands_value EE_CALIBRATE_CH1_50_OHMS_5_DBM = ''$E4242*''"
| "Commands_value EE_CALIBRATE_CH2_0_DBM = ''$E4343*''"
| "Commands_value EE_CALIBRATE_CH2_MINUS_20_DBM = ''$E4444*''"
| "Commands_value EE_SAVE_CH1_NOISE_FLOOR = ''$E4545*''"
| "Commands_value EE_SAVE_CH2_NOISE_FLOOR = ''$E4646*''"
| "Commands_value EE_AUTO_SEND_FREQ = ''$E6060*''"
| "Commands_value EE_AUTO_SEND_FREQ_POWER = ''$E6161*''"
| "Commands_value EE_QUERY_FREQ_POWER_MANUALLY = ''$E6262*''"

section \<open>The command queue (ui_main.py)\<close>

text \<open>
  A queued command is a string or a member of the enumeration. The state of the scheduler
  is the three global variables of the module and, for the serial port, the texts written
  to it so far. Messages on the screen and the pause before a write are left out.
\<close>

datatype command = Text string | Member Commands

record scheduler =
  command_queue :: "command list"
  waiting_for_command :: bool
  is_serial_port_established :: bool
  serial_written :: "string list"

definition send_to_command_buffer :: "scheduler \<Rightarrow> command \<Rightarrow> scheduler" where
  "send_to_command_buffer st c = st\<lparr>command_queue := command_queue st @ [c]\<rparr>"

text \<open>\<^verbatim>\<open>command if isinstance(command, str) else str(command.value)\<close>\<close>

definition command_text :: "command \<Rightarrow> string" where
  "command_text c = (case c of Text t \<Rightarrow> t | Member m \<Rightarrow> Commands_value m)"

definition serial_write :: "scheduler \<Rightarrow> command \<Rightarrow> scheduler" where
  "serial_write st c =
     (if is_serial_port_established st
      then st\<lparr>serial_written := serial_written st @ [command_text c]\<rparr>
      else st)"

text \<open>\<^verbatim>\<open>send_command(command_str)\<close>; the default argument is the empty string.\<close>

definition send_command :: "scheduler \<Rightarrow> string \<Rightarrow> scheduler" where
  "send_command st command_str =
     (if command_str \<noteq> [] then
        serial_write (st\<lparr>waiting_for_command := False\<rparr>) (Text command_str)
      else
        case command_queue st of
          c # rest \<Rightarrow>
            serial_write (st\<lparr>command_queue := rest, waiting_for_command := False\<rparr>) c
        | [] \<Rightarrow> st\<lparr>waiting_for_command := True\<rparr>)"

text \<open>An interleaving of calls: enqueue a command, or send the next one.\<close>

datatype sched_op = Enqueue command | Dequeue

fun run_ops :: "sched_op list \<Rightarrow> scheduler \<Rightarrow> scheduler" where
  "run_ops [] st = st"
| "run_ops (Enqueue c # ops) st = run_ops ops (send_to_command_buffer st c)"
| "run_ops (Dequeue # ops) st = run_ops ops (send_command st [])"

fun enqueued :: "sched_op list \<Rightarrow> command list" where
  "enqueued [] = []"
| "enqueued (Enqueue c # ops) = c # enqueued ops"
| "enqueued (Dequeue # ops) = enqueued ops"

section \<open>Facts about the string primitives\<close>

lemma py_in_iff: "py_in sub s \<longleftrightarrow> (\<exists>ps ss. s = ps @ sub @ ss)"
proof (induction s)
  case Nil
  then show ?case by auto
next
  case (Cons c cs)
  show ?case
  proof
    assume "py_in sub (c # cs)"
    then consider "prefix sub (c # cs)" | "py_in sub cs" by auto
    then show "\<exists>ps ss. c # cs = ps @ sub @ ss"
    proof cases
      case 1
      then obtain ss where "c # cs = sub @ ss" by (auto simp: prefix_def)
      then have "c # cs = [] @ sub @ ss" by simp
      then show ?thesis by blast
    next
      case 2
      with Cons obtain ps ss where "cs = ps @ sub @ ss" by blast
      then have "c # cs = (c # ps) @ sub @ ss" by simp
      then show ?thesis by blast
    qed
  next
    assume "\<exists>ps ss. c # cs = ps @ sub @ ss"
    then obtain ps ss where eq: "c # cs = ps @ sub @ ss" by blast
    show "py_in sub (c # cs)"
    proof (cases ps)
      case Nil
      with eq have "prefix sub (c # cs)" by (simp add: prefix_def)
      then show ?thesis by simp
    next
      case (Cons p ps')
      with eq have "cs = ps' @ sub @ ss" by simp
      with Cons.IH show ?thesis by auto
    qed
  qed
qed

lemma py_split_nonempty: "py_split sep s \<noteq> []"
  by (induction s) (auto split: list.splits)

lemma suffix_DOK_has_OK:
  assumes "''DOK'' = py_slice_from (- 3) t"
  shows "py_in ''OK'' t"
proof -
  let ?k = "slice_index (length t) (- 3)"
  have "t = take ?k t @ drop ?k t" by simp
  also have "drop ?k t = ''D'' @ ''OK'' @ []" using assms by (simp add: py_slice_from_def)
  finally have "t = (take ?k t @ ''D'') @ ''OK'' @ []" by simp
  then show ?thesis unfolding py_in_iff by blast
qed

lemma DOK_not_AOK: "''DOK'' = x \<Longrightarrow> ''AOK'' \<noteq> x \<and> ''GOK'' \<noteq> x"
  by auto

section \<open>Facts about the measurement log\<close>

lemma update_settings_init [simp]: "update_settings cur FASettings_init = cur"
  by (simp add: update_settings_def FASettings_init_def)

lemma add_measurements_pair:
  assumes "Decimal_of_str p1 = Some f" and "Decimal_of_str p2 = Some n"
    and "dec_div n (dec_of_int 10) = Inr q"
  shows "add_measurements ts [(FREQUENCY, p1), (POWER, p2)] m =
           (None, m\<lparr>frequencies := frequencies m @ [(f, ts)], power := power m @ [(q, ts)]\<rparr>)"
  using assms by simp

lemma add_string_decoded:
  assumes "preprocess_string s = Inr (ms, FASettings_init)" and "\<not> reset_on_the_next_read m"
  shows "add_string now_reset now m s =
           add_measurements (now - start_time m) ms
             (m\<lparr>strings := strings m @ [(s, now - start_time m)]\<rparr>)"
  using assms by (simp add: add_string_def Let_def)

lemma add_measurements_keeps:
  "strings (snd (add_measurements ts ms m)) = strings m \<and>
   reset_on_the_next_read (snd (add_measurements ts ms m)) = reset_on_the_next_read m \<and>
   start_time (snd (add_measurements ts ms m)) = start_time m"
  by (induction ts ms m rule: add_measurements.induct)
     (auto split: option.splits sum.splits)

lemma average_value_nonempty:
  assumes "data \<noteq> []" and "average_value data = Inr r"
  shows "\<exists>mean. r = DecimalVal mean"
  using assms
  by (cases data) (auto simp: average_value_def split: sum.splits)

section \<open>Facts about decimal digit strings\<close>

lemma digit_cases: "(d::nat) < 10 \<Longrightarrow> d \<in> {0, 1, 2, 3, 4, 5, 6, 7, 8, 9}"
  by auto

lemma digit_char_is_digit: "d < 10 \<Longrightarrow> is_digit (digit_char d)"
  unfolding is_digit_def digit_char_def by (rule nth_mem) simp

lemma digit_val_digit_char: "d < 10 \<Longrightarrow> digit_val (digit_char d) = d"
  using digit_cases[of d] by (auto simp: digit_val_def digit_char_def)

lemma digits_val_snoc: "digits_val (ds @ [c]) = 10 * digits_val ds + digit_val c"
  by (simp add: digits_val_def)

lemma str_nat_digits: "list_all is_digit (str_nat n)"
proof (induction n rule: str_nat.induct)
  case (1 n)
  show ?case
  proof (cases "n < 10")
    case True
    then show ?thesis by (subst str_nat.simps) (simp add: digit_char_is_digit)
  next
    case False
    with 1 show ?thesis by (subst str_nat.simps) (simp add: digit_char_is_digit)
  qed
qed

lemma digits_val_str_nat: "digits_val (str_nat n) = n"
proof (induction n rule: str_nat.induct)
  case (1 n)
  show ?case
  proof (cases "n < 10")
    case True
    then show ?thesis
      by (subst str_nat.simps) (simp add: digits_val_def digit_val_digit_char)
  next
    case False
    with 1 show ?thesis
      by (subst str_nat.simps) (simp add: digits_val_snoc digit_val_digit_char)
  qed
qed

lemma length_str_nat: "length (str_nat n) = ndigits n"
proof (induction n rule: str_nat.induct)
  case (1 n)
  show ?case
  proof (cases "n < 10")
    case True
    then show ?thesis by (subst str_nat.simps, subst ndigits.simps) simp
  next
    case False
    with 1 show ?thesis by (subst str_nat.simps, subst ndigits.simps) simp
  qed
qed

lemma str_nat_nonempty: "str_nat n \<noteq> []"
  by (subst str_nat.simps) simp

lemma digits_val_zeros: "digits_val (replicate k (CHR ''0'') @ ds) = digits_val ds"
proof -
  have "foldl (\<lambda>acc c. 10 * acc + digit_val c) 0 (replicate k (CHR ''0'')) = 0"
    by (induction k) (simp_all add: digit_val_def)
  then show ?thesis by (simp add: digits_val_def)
qed

lemma is_digit_zero: "is_digit (CHR ''0'')"
  by (simp add: is_digit_def)

section \<open>Decoder and log: lines of the continuous stream\<close>

text \<open>
  C1. The decoder trims surrounding whitespace (the line terminator) first; \<open>t\<close> is the
  line as the decoder looks at it. If \<open>t\<close> does not contain "OK" but contains the
  character \<^verbatim>\<open>$\<close>, the decoder splits \<open>t\<close> on commas and returns a Frequency
  measurement whose payload is the first field without its first two and its last three
  characters, followed by a Power measurement from the second field exactly when the
  split yields three fields; it returns no settings. For such a line of three fields
  whose payloads are decimals, \<^verbatim>\<open>add_string\<close> appends the line, the frequency, and the
  power divided by ten, all with the same timestamp.
\<close>

theorem add_string_stream:
  assumes "t = py_strip s" and "\<not> py_in ''OK'' t" and "py_in ''$'' t"
    and "flds = py_split (CHR '','') t"
  shows "preprocess_string s =
           Inr ((FREQUENCY, py_slice 2 (- 3) (hd flds))
                  # (if length flds = 3 then [(POWER, flds ! 1)] else []),
                FASettings_init)
       \<and> (\<forall>(ml::MeasureLog) f n q now_reset now.
             length flds = 3 \<and> \<not> reset_on_the_next_read ml
             \<and> Decimal_of_str (py_slice 2 (- 3) (hd flds)) = Some f
             \<and> Decimal_of_str (flds ! 1) = Some n
             \<and> dec_div n (dec_of_int 10) = Inr q
           \<longrightarrow> add_string now_reset now ml s =
                 (None, ml\<lparr>strings := strings ml @ [(s, now - start_time ml)],
                           frequencies := frequencies ml @ [(f, now - start_time ml)],
                           power := power ml @ [(q, now - start_time ml)]\<rparr>))"
proof -
  obtain f0 fs where sp: "py_split (CHR '','') t = f0 # fs"
    using py_split_nonempty by (cases "py_split (CHR '','') t") auto
  have dec: "preprocess_string s =
           Inr ((FREQUENCY, py_slice 2 (- 3) (hd flds))
                  # (if length flds = 3 then [(POWER, flds ! 1)] else []),
                FASettings_init)"
    unfolding preprocess_string_def Let_def assms(1)[symmetric] assms(4)
    using assms(2,3) sp by simp
  have store: "add_string now_reset now ml s =
                 (None, ml\<lparr>strings := strings ml @ [(s, now - start_time ml)],
                           frequencies := frequencies ml @ [(f, now - start_time ml)],
                           power := power ml @ [(q, now - start_time ml)]\<rparr>)"
    if h: "length flds = 3" "\<not> reset_on_the_next_read ml"
          "Decimal_of_str (py_slice 2 (- 3) (hd flds)) = Some f"
          "Decimal_of_str (flds ! 1) = Some n"
          "dec_div n (dec_of_int 10) = Inr q"
    for ml :: MeasureLog and f n q now_reset now
  proof -
    have d: "preprocess_string s =
               Inr ([(FREQUENCY, py_slice 2 (- 3) (hd flds)), (POWER, flds ! 1)], FASettings_init)"
      using dec h(1) by simp
    show ?thesis
      unfolding add_string_decoded[OF d h(2)] add_measurements_pair[OF h(3) h(4) h(5)]
      by simp
  qed
  from dec store show ?thesis by blast
qed

text \<open>
  The scenario of the specification: the line \<^verbatim>\<open>$A0010000000.001000001,+00129,\<close> gives one
  frequency sample, 10000000.001000, and one power sample, 129/10 = 12.9.
\<close>

theorem add_string_stream_witness:
  "add_string 100 105
       \<lparr>strings = [], frequencies = [], power = [], start_time = 0,
        reset_on_the_next_read = False, latest_settings = FASettings_init\<rparr>
       ''$A0010000000.001000001,+00129,'' =
     (None, \<lparr>strings = [(''$A0010000000.001000001,+00129,'', 105)],
             frequencies = [(Finite False 10000000001000 (- 6), 105)],
             power = [(Finite False 129 (- 1), 105)],
             start_time = 0, reset_on_the_next_read = False,
             latest_settings = FASettings_init\<rparr>)"
proof -
  let ?s = "''$A0010000000.001000001,+00129,''"
  let ?flds = "[''$A0010000000.001000001'', ''+00129'', []]"
  let ?m = "\<lparr>strings = [], frequencies = [], power = [], start_time = 0,
        reset_on_the_next_read = False, latest_settings = FASettings_init\<rparr>"
  have h1: "?s = py_strip ?s" by code_simp
  have h2: "\<not> py_in ''OK'' ?s" by code_simp
  have h3: "py_in ''$'' ?s" by code_simp
  have h4: "?flds = py_split (CHR '','') ?s" by code_simp
  have d1: "Decimal_of_str (py_slice 2 (- 3) (hd ?flds)) = Some (Finite False 10000000001000 (- 6))"
    by code_simp
  have d2: "Decimal_of_str (?flds ! 1) = Some (Finite False 129 0)" by code_simp
  have d3: "dec_div (Finite False 129 0) (dec_of_int 10) = Inr (Finite False 129 (- 1))"
    by code_simp
  have l: "length ?flds = 3" by simp
  have r: "\<not> reset_on_the_next_read ?m" by simp
  have "add_string 100 105 ?m ?s =
          (None, ?m\<lparr>strings := strings ?m @ [(?s, 105 - start_time ?m)],
                     frequencies := frequencies ?m @ [(Finite False 10000000001000 (- 6), 105 - start_time ?m)],
                     power := power ?m @ [(Finite False 129 (- 1), 105 - start_time ?m)]\<rparr>)"
    using add_string_stream[OF h1 h2 h3 h4] l r d1 d2 d3 by blast
  then show ?thesis by simp
qed

section \<open>Decoder: settings report lines (DOK)\<close>

text \<open>
  C3, at the line \<^verbatim>\<open>$APOKDOK\<close>: the line contains "OK" and its last three characters are
  "DOK", so it is a settings report. The decoder tests for "POK" anywhere in the line
  before it looks at the end of the line (every other branch compares the last three
  characters), so it takes the line for a power reply: it returns a Power measurement
  and no settings.
\<close>

theorem preprocess_string_DOK_line_with_POK:
  "py_in ''OK'' ''$APOKDOK'' \<and> py_slice_from (- 3) ''$APOKDOK'' = ''DOK'' \<and>
   preprocess_string ''$APOKDOK'' = Inr ([(POWER, ''PO'')], FASettings_init)"
  by code_simp

text \<open>
  Every other settings report is decoded by position. Let \<open>t\<close> be the line without
  surrounding whitespace. If \<open>t\<close> does not contain "POK" and its last three characters
  are "DOK", the decoder returns no measurement and the settings read from the characters
  1 to 5 of \<open>t\<close>: the channel from index 1 (A, B, T, anything else unknown),
  precision = (index 2 is P), external reference = (index 3 is E), 50 ohm = (index 4 is R),
  low-pass filter = (index 5 is L); the gate time stays 0 (unset).
\<close>

lemma preprocess_string_DOK:
  assumes "t = py_strip s" and "\<not> py_in ''POK'' t" and "''DOK'' = py_slice_from (- 3) t"
  shows "preprocess_string s =
     Inr ([], \<lparr>channel = channel_to_text (py_slice 1 2 t),
               imp50 = Some (py_slice 4 5 t = ''R''),
               precision = Some (py_slice 2 3 t = ''P''),
               ext_reference_osc = Some (py_slice 3 4 t = ''E''),
               lpf = Some (py_slice 5 6 t = ''L''),
               gate_time = 0\<rparr>)"
proof -
  have ok: "py_in ''OK'' t" using assms(3) by (rule suffix_DOK_has_OK)
  have na: "''AOK'' \<noteq> py_slice_from (- 3) t" "''GOK'' \<noteq> py_slice_from (- 3) t"
    using DOK_not_AOK[OF assms(3)] by simp_all
  show ?thesis
    unfolding preprocess_string_def Let_def assms(1)[symmetric]
    using ok assms(2) na assms(3)[symmetric]
    by (simp add: FASettings_init_def)
qed

text \<open>The scenario of the specification: the line \<^verbatim>\<open>$APIR ,0009999999.999870000,+00127,DOK\<close>.\<close>

lemma preprocess_string_DOK_scenario:
  "preprocess_string ''$APIR ,0009999999.999870000,+00127,DOK'' =
     Inr ([], \<lparr>channel = Some ''Channel: 1'', imp50 = Some True, precision = Some True,
               ext_reference_osc = Some False, lpf = Some False, gate_time = 0\<rparr>)"
proof -
  let ?s = "''$APIR ,0009999999.999870000,+00127,DOK''"
  have h1: "?s = py_strip ?s" by code_simp
  have h2: "\<not> py_in ''POK'' ?s" by code_simp
  have h3: "''DOK'' = py_slice_from (- 3) ?s" by code_simp
  have v1: "channel_to_text (py_slice 1 2 ?s) = Some ''Channel: 1''" by code_simp
  have v2: "(py_slice 4 5 ?s = ''R'') = True" by code_simp
  have v3: "(py_slice 2 3 ?s = ''P'') = True" by code_simp
  have v4: "(py_slice 3 4 ?s = ''E'') = False" by code_simp
  have v5: "(py_slice 5 6 ?s = ''L'') = False" by code_simp
  show ?thesis
    using preprocess_string_DOK[OF h1 h2 h3] unfolding v1 v2 v3 v4 v5 .
qed

section \<open>Settings tracker\<close>

text \<open>
  C4. Merging a delta into the current settings overwrites a field exactly when the
  delta carries a value for it (for the gate time: a strictly positive one); every other
  field keeps its prior value. In particular a known channel survives a delta without one.
\<close>

theorem update_settings_frame:
  "(channel d = None \<longrightarrow> channel (update_settings cur d) = channel cur) \<and>
   (channel d \<noteq> None \<longrightarrow> channel (update_settings cur d) = channel d) \<and>
   (imp50 d = None \<longrightarrow> imp50 (update_settings cur d) = imp50 cur) \<and>
   (imp50 d \<noteq> None \<longrightarrow> imp50 (update_settings cur d) = imp50 d) \<and>
   (precision d = None \<longrightarrow> precision (update_settings cur d) = precision cur) \<and>
   (precision d \<noteq> None \<longrightarrow> precision (update_settings cur d) = precision d) \<and>
   (ext_reference_osc d = None \<longrightarrow>
      ext_reference_osc (update_settings cur d) = ext_reference_osc cur) \<and>
   (ext_reference_osc d \<noteq> None \<longrightarrow>
      ext_reference_osc (update_settings cur d) = ext_reference_osc d) \<and>
   (lpf d = None \<longrightarrow> lpf (update_settings cur d) = lpf cur) \<and>
   (lpf d \<noteq> None \<longrightarrow> lpf (update_settings cur d) = lpf d) \<and>
   (gate_time d > 0 \<longrightarrow> gate_time (update_settings cur d) = gate_time d) \<and>
   (\<not> gate_time d > 0 \<longrightarrow> gate_time (update_settings cur d) = gate_time cur)"
  by (simp add: update_settings_def Let_def)

theorem update_settings_frame_witness:
  "channel (update_settings
      \<lparr>channel = Some ''Channel: 1'', imp50 = None, precision = Some False,
       ext_reference_osc = None, lpf = Some True, gate_time = 1000\<rparr>
      \<lparr>channel = None, imp50 = Some True, precision = None,
       ext_reference_osc = None, lpf = Some False, gate_time = 0\<rparr>) = Some ''Channel: 1'' \<and>
   imp50 (update_settings
      \<lparr>channel = Some ''Channel: 1'', imp50 = None, precision = Some False,
       ext_reference_osc = None, lpf = Some True, gate_time = 1000\<rparr>
      \<lparr>channel = None, imp50 = Some True, precision = None,
       ext_reference_osc = None, lpf = Some False, gate_time = 0\<rparr>) = Some True \<and>
   gate_time (update_settings
      \<lparr>channel = Some ''Channel: 1'', imp50 = None, precision = Some False,
       ext_reference_osc = None, lpf = Some True, gate_time = 1000\<rparr>
      \<lparr>channel = None, imp50 = Some True, precision = None,
       ext_reference_osc = None, lpf = Some False, gate_time = 0\<rparr>) = 1000"
  using update_settings_frame
    [of "\<lparr>channel = None, imp50 = Some True, precision = None,
          ext_reference_osc = None, lpf = Some False, gate_time = 0\<rparr>"
        "\<lparr>channel = Some ''Channel: 1'', imp50 = None, precision = Some False,
          ext_reference_osc = None, lpf = Some True, gate_time = 1000\<rparr>"]
  by simp

section \<open>Malformed numeric content\<close>

text \<open>
  A payload that is no decimal is skipped by \<^verbatim>\<open>add_string\<close>, but two other kinds of
  malformed numeric content leave the function with an exception. A power payload whose
  tenth is above the largest exponent of the context raises Overflow, which the handler
  for InvalidOperation does not catch:
\<close>

lemma add_string_power_overflow:
  "fst (add_string now_reset now m ''$A123456,1E1000001,'') = Some Overflow"
proof -
  have p: "preprocess_string ''$A123456,1E1000001,'' =
             Inr ([(FREQUENCY, ''123''), (POWER, ''1E1000001'')], FASettings_init)" by code_simp
  have d1: "Decimal_of_str ''123'' = Some (Finite False 123 0)" by code_simp
  have d2: "Decimal_of_str ''1E1000001'' = Some (Finite False 1 1000001)" by code_simp
  have d3: "dec_div (Finite False 1 1000001) (dec_of_int 10) = Inl Overflow" by code_simp
  show ?thesis by (simp add: add_string_def Let_def p d1 d2 d3 del: One_nat_def)
qed

text \<open>
  C5, at the acknowledgement line \<^verbatim>\<open>$000200x,000AOK\<close>, whose gate-time digits hold a
  stray character: the decoder reads the seven characters \<^verbatim>\<open>000200x\<close> with
  \<^verbatim>\<open>int(...)\<close>, outside every \<^verbatim>\<open>try\<close>, and \<^verbatim>\<open>add_string\<close> leaves with ValueError.
\<close>

theorem add_string_malformed_gate_time:
  "preprocess_string ''$000200x,000AOK'' = Inl ValueError \<and>
   fst (add_string now_reset now m ''$000200x,000AOK'') = Some ValueError"
proof -
  have p: "preprocess_string ''$000200x,000AOK'' = Inl ValueError" by code_simp
  then show ?thesis by (simp add: add_string_def Let_def)
qed


section \<open>The deferred reset\<close>

text \<open>
  When a reset is pending and the decoder accepts the line, the sequences are cleared
  first and the line is then appended: afterwards the raw lines are exactly that line, and
  the flag is cleared.
\<close>

lemma add_string_pending_reset:
  assumes "reset_on_the_next_read m" and "preprocess_string s = Inr (ms, d)"
  shows "strings (snd (add_string now_reset now m s)) = [(s, now - now_reset)] \<and>
         \<not> reset_on_the_next_read (snd (add_string now_reset now m s))"
  using assms by (simp add: add_string_def Let_def reset_def add_measurements_keeps)

text \<open>
  C7, at the line \<^verbatim>\<open>$000200x,000AOK\<close> with a reset pending: the reset is done, then the
  decoder raises ValueError before the line is appended, so the log is left empty and the
  line that triggered the reset is lost.
\<close>

theorem add_string_pending_reset_malformed_line:
  "add_string now_reset now (m\<lparr>reset_on_the_next_read := True\<rparr>) ''$000200x,000AOK'' =
     (Some ValueError,
      m\<lparr>strings := [], frequencies := [], power := [], start_time := now_reset,
        reset_on_the_next_read := False\<rparr>)"
proof -
  have p: "preprocess_string ''$000200x,000AOK'' = Inl ValueError" by code_simp
  then show ?thesis by (simp add: add_string_def Let_def reset_def)
qed

section \<open>The command queue is first in, first out\<close>

lemma established_send_to_command_buffer [simp]:
  "is_serial_port_established (send_to_command_buffer st c) = is_serial_port_established st"
  by (simp add: send_to_command_buffer_def)

lemma established_send_command [simp]:
  "is_serial_port_established (send_command st s) = is_serial_port_established st"
  by (simp add: send_command_def serial_write_def split: list.splits)

lemma fifo_step_enqueue:
  "serial_written (send_to_command_buffer st c)
     @ map command_text (command_queue (send_to_command_buffer st c)) =
   serial_written st @ map command_text (command_queue st) @ [command_text c]"
  by (simp add: send_to_command_buffer_def)

lemma fifo_step_dequeue:
  "is_serial_port_established st \<Longrightarrow>
   serial_written (send_command st []) @ map command_text (command_queue (send_command st [])) =
   serial_written st @ map command_text (command_queue st)"
  by (simp add: send_command_def serial_write_def split: list.splits)

lemma fifo_run_ops:
  "is_serial_port_established st \<Longrightarrow>
   serial_written (run_ops ops st) @ map command_text (command_queue (run_ops ops st)) =
   serial_written st @ map command_text (command_queue st @ enqueued ops)"
proof (induction ops st rule: run_ops.induct)
  case (1 st)
  then show ?case by simp
next
  case (2 c ops st)
  then show ?case using fifo_step_enqueue[of st c] by simp
next
  case (3 ops st)
  then show ?case using fifo_step_dequeue[of st] by simp
qed

text \<open>
  C8. Enqueueing appends the command at the tail of the queue and cannot fail; sending
  with no literal argument removes the head of the queue (and writes its text when the
  port is established); on an empty queue it writes nothing, raises nothing and only sets
  \<^verbatim>\<open>waiting_for_command\<close>, the flag of the module that says that no command is waiting
  for an answer. Under every interleaving of these two calls, on an established port, the
  texts written so far followed by the texts still queued are the initial queue followed
  by everything enqueued, in that order: commands are sent in the order of enqueueing.
\<close>

theorem command_queue_fifo:
  "command_queue (send_to_command_buffer st c) = command_queue st @ [c]
   \<and> serial_written (send_to_command_buffer st c) = serial_written st
   \<and> (\<forall>hd_c rest. command_queue st = hd_c # rest \<longrightarrow>
          command_queue (send_command st []) = rest
          \<and> waiting_for_command (send_command st []) = False
          \<and> (is_serial_port_established st \<longrightarrow>
                serial_written (send_command st []) = serial_written st @ [command_text hd_c]))
   \<and> (command_queue st = [] \<longrightarrow> send_command st [] = st\<lparr>waiting_for_command := True\<rparr>)
   \<and> (is_serial_port_established st \<longrightarrow>
          serial_written (run_ops ops st) @ map command_text (command_queue (run_ops ops st)) =
          serial_written st @ map command_text (command_queue st @ enqueued ops))"
proof (intro conjI allI impI)
  show "command_queue (send_to_command_buffer st c) = command_queue st @ [c]"
    by (simp add: send_to_command_buffer_def)
  show "serial_written (send_to_command_buffer st c) = serial_written st"
    by (simp add: send_to_command_buffer_def)
next
  fix hd_c rest
  assume q: "command_queue st = hd_c # rest"
  then show "command_queue (send_command st []) = rest"
    by (simp add: send_command_def serial_write_def)
  from q show "waiting_for_command (send_command st []) = False"
    by (simp add: send_command_def serial_write_def)
  assume "is_serial_port_established st"
  with q show "serial_written (send_command st []) = serial_written st @ [command_text hd_c]"
    by (simp add: send_command_def serial_write_def)
next
  assume "command_queue st = []"
  then show "send_command st [] = st\<lparr>waiting_for_command := True\<rparr>"
    by (simp add: send_command_def)
next
  assume "is_serial_port_established st"
  then show "serial_written (run_ops ops st) @ map command_text (command_queue (run_ops ops st)) =
          serial_written st @ map command_text (command_queue st @ enqueued ops)"
    by (rule fifo_run_ops)
qed

text \<open>Three commands enqueued between four sends are written in their order.\<close>

theorem command_queue_fifo_witness:
  "run_ops [Enqueue (Member GET_FREQ_POWER_SETTINGS), Enqueue (Text ''$A02000*''), Dequeue,
            Enqueue (Member GET_GATE_TIME_SETTING), Dequeue, Dequeue, Dequeue]
     \<lparr>command_queue = [], waiting_for_command = True, is_serial_port_established = True,
      serial_written = []\<rparr> =
   \<lparr>command_queue = [], waiting_for_command = True, is_serial_port_established = True,
    serial_written = [''$D*'', ''$A02000*'', ''$G*'']\<rparr>
   \<and> map command_text [Member GET_FREQ_POWER_SETTINGS, Text ''$A02000*'', Member GET_GATE_TIME_SETTING]
       = [''$D*'', ''$A02000*'', ''$G*'']"
proof -
  let ?st = "\<lparr>command_queue = [], waiting_for_command = True, is_serial_port_established = True,
      serial_written = []\<rparr>"
  let ?ops = "[Enqueue (Member GET_FREQ_POWER_SETTINGS), Enqueue (Text ''$A02000*''), Dequeue,
            Enqueue (Member GET_GATE_TIME_SETTING), Dequeue, Dequeue, Dequeue]"
  have e: "is_serial_port_established ?st" by simp
  have r: "run_ops ?ops ?st =
     \<lparr>command_queue = [], waiting_for_command = True, is_serial_port_established = True,
      serial_written = [''$D*'', ''$A02000*'', ''$G*'']\<rparr>"
    by (simp add: send_to_command_buffer_def send_command_def serial_write_def command_text_def)
  from command_queue_fifo[of ?st _ ?ops] e
  have "serial_written (run_ops ?ops ?st) @ map command_text (command_queue (run_ops ?ops ?st)) =
          serial_written ?st @ map command_text (command_queue ?st @ enqueued ?ops)"
    by blast
  then have "map command_text [Member GET_FREQ_POWER_SETTINGS, Text ''$A02000*'', Member GET_GATE_TIME_SETTING]
       = [''$D*'', ''$A02000*'', ''$G*'']"
    unfolding r by simp
  with r show ?thesis by simp
qed

end
